theory Spec2Isabelle
  imports Complex_Main "HOL-Library.Word" "HOL-Library.Multiset"
begin

section \<open>Data model of package \<open>product\<close>\<close>

text \<open>
  Go's \<open>int\<close> is a 64-bit two's complement integer on the 64-bit targets the service is
  built for: \<open>+\<close> and \<open>-\<close> wrap around, comparisons are signed (\<open><s\<close>, \<open>\<le>s\<close>).
  A \<open>float64\<close> is carried around as its IEEE-754 bit pattern: the operations modelled
  here copy and overwrite prices, and \<open>FetchProductDetails\<close> converts an \<open>int\<close> to one;
  none of them does floating-point arithmetic.
\<close>

type_synonym go_int = "64 word"

datatype float64 = Float64 "64 word"

text \<open>The package-level error values created with \<open>errors.New\<close>; \<open>nil\<close> is \<open>None\<close>.\<close>

datatype error =
    ErrInsufficientStock
  | ErrProductNotFound
  | ErrProductAlreadyExists
  | ErrAPIRequestFailed
  | ErrFailedToSaveProduct
  | ErrFailedToGetProduct
  | ErrFailedToDeleteProduct
  | ErrFailedToFetchProductDetails

record Product =
  ID :: go_int
  Name :: string
  Price :: float64
  Quantity :: go_int
  Category :: string

section \<open>Product methods\<close>

text \<open>
  The methods have pointer receivers and mutate the product in place. Each is modelled as
  a function from the product before the call to the product after it, paired with the
  returned error where the method returns one.
\<close>

definition UpdatePrice :: "Product \<Rightarrow> float64 \<Rightarrow> Product" where
  "UpdatePrice p newPrice = p\<lparr>Price := newPrice\<rparr>"

definition Sell :: "Product \<Rightarrow> go_int \<Rightarrow> error option \<times> Product" where
  "Sell p quantity =
     (if Quantity p <s quantity then (Some ErrInsufficientStock, p)
      else (None, p\<lparr>Quantity := Quantity p - quantity\<rparr>))"

definition Restock :: "Product \<Rightarrow> go_int \<Rightarrow> Product" where
  "Restock p quantity = p\<lparr>Quantity := Quantity p + quantity\<rparr>"

text \<open>
  A caller drives one product through a sequence of these mutation primitives. The error
  that \<open>Sell\<close> may return does not stop the caller: the product simply stays as it was.
\<close>

datatype product_op = OpSell go_int | OpRestock go_int | OpUpdatePrice float64

fun apply_op :: "Product \<Rightarrow> product_op \<Rightarrow> Product" where
  "apply_op p (OpSell n) = snd (Sell p n)"
| "apply_op p (OpRestock n) = Restock p n"
| "apply_op p (OpUpdatePrice x) = UpdatePrice p x"

fun apply_ops :: "Product \<Rightarrow> product_op list \<Rightarrow> Product" where
  "apply_ops p [] = p"
| "apply_ops p (x # xs) = apply_ops (apply_op p x) xs"

text \<open>
  An operation stays inside the range of \<open>int\<close> when the exact result of its arithmetic is
  at most \<open>2^63 - 1\<close>; a restock is ordinary when, in addition, its argument is not
  negative. \<open>ops_in_range\<close> checks this along a run, at the quantity each operation meets.
\<close>

fun op_in_range :: "Product \<Rightarrow> product_op \<Rightarrow> bool" where
  "op_in_range p (OpSell n) = (sint (Quantity p) - sint n < 2 ^ 63)"
| "op_in_range p (OpRestock n) = (0 \<le> sint n \<and> sint (Quantity p) + sint n < 2 ^ 63)"
| "op_in_range p (OpUpdatePrice x) = True"

fun ops_in_range :: "Product \<Rightarrow> product_op list \<Rightarrow> bool" where
  "ops_in_range p [] = True"
| "ops_in_range p (x # xs) = (op_in_range p x \<and> ops_in_range (apply_op p x) xs)"

section \<open>Maps from IDs to products\<close>

text \<open>
  A value of type \<open>map[int]Product\<close> is \<open>nil\<close> or refers to a table of entries; \<open>nil\<close> is
  the zero value, the one the field of a struct has that was built without \<open>make\<close>.
  \<open>None\<close> is the nil map and \<open>Some f\<close> a map with the entries of \<open>f\<close>, so
  \<open>make(map[int]Product)\<close> is \<open>Some Map.empty\<close>. Reading a nil map finds nothing,
  \<open>delete\<close> on it does nothing and \<open>range\<close> over it runs no iteration, but assigning to an
  entry of it panics, and the method that does so does not return.
\<close>

datatype panic = AssignmentToEntryInNilMap

type_synonym product_map = "(go_int \<rightharpoonup> Product) option"

definition map_lookup :: "product_map \<Rightarrow> go_int \<Rightarrow> Product option" where
  "map_lookup m k = (case m of None \<Rightarrow> None | Some f \<Rightarrow> f k)"

definition map_assign :: "product_map \<Rightarrow> go_int \<Rightarrow> Product \<Rightarrow> panic + product_map" where
  "map_assign m k v =
     (case m of None \<Rightarrow> Inl AssignmentToEntryInNilMap | Some f \<Rightarrow> Inr (Some (f(k \<mapsto> v))))"

definition map_delete :: "product_map \<Rightarrow> go_int \<Rightarrow> product_map" where
  "map_delete m k = (case m of None \<Rightarrow> None | Some f \<Rightarrow> Some (f(k := None)))"

definition map_keys :: "product_map \<Rightarrow> go_int set" where
  "map_keys m = (case m of None \<Rightarrow> {} | Some f \<Rightarrow> dom f)"

text \<open>
  A \<open>range\<close> loop over a map visits every entry once, in an order the runtime chooses.
  The order is an argument of the model: \<open>order\<close> lists the keys as the loop meets them,
  and \<open>range_order m order\<close> says that it is an order \<open>range\<close> can produce for \<open>m\<close>.
\<close>

definition range_order :: "product_map \<Rightarrow> go_int list \<Rightarrow> bool" where
  "range_order m order \<longleftrightarrow> distinct order \<and> set order = map_keys m"

section \<open>Pointers to products\<close>

text \<open>
  \<open>FindProductByName\<close> and the \<open>GetByID\<close> methods return \<open>&p\<close>, the address of a local
  variable that holds a copy of a map element; the variable escapes and lives in a cell of
  its own. The cells are kept in a heap: \<open>cells\<close> maps the addresses handed out so far to
  their contents, and \<open>next_addr\<close> is the address the next allocation returns.
\<close>

type_synonym addr = nat

record heap =
  cells :: "addr \<rightharpoonup> Product"
  next_addr :: addr

definition heap_ok :: "heap \<Rightarrow> bool" where
  "heap_ok h \<longleftrightarrow> (\<forall>a. next_addr h \<le> a \<longrightarrow> cells h a = None)"

definition alloc :: "heap \<Rightarrow> Product \<Rightarrow> addr \<times> heap" where
  "alloc h p =
     (next_addr h, h\<lparr>cells := (cells h)(next_addr h \<mapsto> p), next_addr := Suc (next_addr h)\<rparr>)"

text \<open>
  What a \<open>*Product\<close> can refer to, seen from one map and the heap: a cell of the heap, or
  the place where the map keeps the element of a key. Go gives out no pointer of the
  second kind (a map element is not addressable), and the methods below build none; it is
  the pointer "to the map entry itself" that a lookup without the copy would return, and
  a write through it would change the stored product.
\<close>

datatype ref = CellRef addr | EntryRef go_int

fun deref :: "product_map \<times> heap \<Rightarrow> ref option \<Rightarrow> Product option" where
  "deref (m, h) None = None"
| "deref (m, h) (Some (CellRef a)) = cells h a"
| "deref (m, h) (Some (EntryRef k)) = map_lookup m k"

text \<open>
  A method call \<open>ptr.M(args)\<close> on a \<open>*Product\<close> rewrites the product the pointer refers to.
  (A nil or dangling pointer would panic; every pointer used below comes from \<open>alloc\<close>.)
\<close>

fun apply_op_at :: "ref \<Rightarrow> product_op \<Rightarrow> product_map \<times> heap \<Rightarrow> product_map \<times> heap" where
  "apply_op_at (CellRef a) x (m, h) =
     (case cells h a of
        None \<Rightarrow> (m, h)
      | Some p \<Rightarrow> (m, h\<lparr>cells := (cells h)(a \<mapsto> apply_op p x)\<rparr>))"
| "apply_op_at (EntryRef k) x (m, h) =
     (case m of
        None \<Rightarrow> (m, h)
      | Some f \<Rightarrow>
          (case f k of
             None \<Rightarrow> (m, h)
           | Some p \<Rightarrow> (Some (f(k \<mapsto> apply_op p x)), h)))"

fun apply_ops_at :: "ref \<Rightarrow> product_op list \<Rightarrow> product_map \<times> heap \<Rightarrow> product_map \<times> heap" where
  "apply_ops_at r [] s = s"
| "apply_ops_at r (x # xs) s = apply_ops_at r xs (apply_op_at r x s)"

section \<open>Inventory\<close>

text \<open>
  The inventory is a struct around one map from IDs to product values; the struct and its
  field are exported and there is no constructor, so a caller builds it, with or without
  a map. Its methods have a pointer receiver; each is modelled as a function that returns
  the inventory after the call next to the method's results, or the panic.
\<close>

record Inventory =
  Products :: product_map

definition AddProduct :: "Inventory \<Rightarrow> Product \<Rightarrow> panic + (error option \<times> Inventory)" where
  "AddProduct i p =
     (case map_lookup (Inventory.Products i) (ID p) of
        Some _ \<Rightarrow> Inr (Some ErrProductAlreadyExists, i)
      | None \<Rightarrow>
          (case map_assign (Inventory.Products i) (ID p) p of
             Inl e \<Rightarrow> Inl e
           | Inr m' \<Rightarrow> Inr (None, i\<lparr>Inventory.Products := m'\<rparr>)))"

definition RemoveProduct :: "Inventory \<Rightarrow> go_int \<Rightarrow> error option \<times> Inventory" where
  "RemoveProduct i id' =
     (case map_lookup (Inventory.Products i) id' of
        None \<Rightarrow> (Some ErrProductNotFound, i)
      | Some _ \<Rightarrow> (None, i\<lparr>Inventory.Products := map_delete (Inventory.Products i) id'\<rparr>))"

fun FindProductByName_loop :: "product_map \<Rightarrow> string \<Rightarrow> go_int list \<Rightarrow> Product option" where
  "FindProductByName_loop m name [] = None"
| "FindProductByName_loop m name (k # ks) =
     (case map_lookup m k of
        None \<Rightarrow> FindProductByName_loop m name ks
      | Some p \<Rightarrow> if Name p = name then Some p else FindProductByName_loop m name ks)"

definition FindProductByName ::
  "Inventory \<Rightarrow> go_int list \<Rightarrow> string \<Rightarrow> heap \<Rightarrow>
     (ref option \<times> error option) \<times> Inventory \<times> heap" where
  "FindProductByName i order name h =
     (case FindProductByName_loop (Inventory.Products i) name order of
        Some p \<Rightarrow> (let (a, h') = alloc h p in ((Some (CellRef a), None), i, h'))
      | None \<Rightarrow> ((None, Some ErrProductNotFound), i, h))"

fun ListByCategory_loop ::
  "product_map \<Rightarrow> string \<Rightarrow> go_int list \<Rightarrow> Product list \<Rightarrow> Product list" where
  "ListByCategory_loop m category [] products = products"
| "ListByCategory_loop m category (k # ks) products =
     (case map_lookup m k of
        None \<Rightarrow> ListByCategory_loop m category ks products
      | Some p \<Rightarrow>
          if Category p = category then ListByCategory_loop m category ks (products @ [p])
          else ListByCategory_loop m category ks products)"

definition ListByCategory :: "Inventory \<Rightarrow> go_int list \<Rightarrow> string \<Rightarrow> Product list" where
  "ListByCategory i order category =
     ListByCategory_loop (Inventory.Products i) category order []"

section \<open>MemoryStorage\<close>

text \<open>
  Every method holds the storage's mutex from its first statement to its return, so calls
  on one storage never overlap; a call is modelled as one step from the storage before it
  to the storage after it. \<open>NewMemoryStorage\<close> makes the map; the struct and its field
  are exported, and the tests build the struct themselves.
\<close>

record MemoryStorage =
  Products :: product_map

definition NewMemoryStorage :: MemoryStorage where
  "NewMemoryStorage = \<lparr>MemoryStorage.Products = Some Map.empty\<rparr>"

definition MemoryStorage_Save ::
  "MemoryStorage \<Rightarrow> Product \<Rightarrow> panic + (error option \<times> MemoryStorage)" where
  "MemoryStorage_Save m p =
     (case map_assign (MemoryStorage.Products m) (ID p) p of
        Inl e \<Rightarrow> Inl e
      | Inr m' \<Rightarrow> Inr (None, m\<lparr>MemoryStorage.Products := m'\<rparr>))"

definition MemoryStorage_GetByID ::
  "MemoryStorage \<Rightarrow> go_int \<Rightarrow> heap \<Rightarrow>
     (ref option \<times> error option) \<times> MemoryStorage \<times> heap" where
  "MemoryStorage_GetByID m id' h =
     (case map_lookup (MemoryStorage.Products m) id' of
        Some p \<Rightarrow> (let (a, h') = alloc h p in ((Some (CellRef a), None), m, h'))
      | None \<Rightarrow> ((None, Some ErrProductNotFound), m, h))"

definition MemoryStorage_Delete :: "MemoryStorage \<Rightarrow> go_int \<Rightarrow> error option \<times> MemoryStorage" where
  "MemoryStorage_Delete m id' =
     (case map_lookup (MemoryStorage.Products m) id' of
        None \<Rightarrow> (Some ErrProductNotFound, m)
      | Some _ \<Rightarrow>
          (None, m\<lparr>MemoryStorage.Products := map_delete (MemoryStorage.Products m) id'\<rparr>))"

section \<open>MockDatabaseStorage\<close>

text \<open>
  The mock database sleeps for \<open>rand.Intn(3)\<close> seconds and then fails when
  \<open>rand.Float32() < 0.1\<close>. The sleep changes no value and is left out. The value drawn by
  \<open>rand.Float32()\<close>, a number in \<open>[0, 1)\<close>, is an argument of each method, read as a
  real number. (The constant is rounded to the \<open>float32\<close> next above \<open>0.1\<close>, and no
  \<open>float32\<close> lies between the two, so the comparison is the one on real numbers.)
\<close>

record MockDatabaseStorage =
  store :: product_map

definition NewMockDatabaseStorage :: MockDatabaseStorage where
  "NewMockDatabaseStorage = \<lparr>store = Some Map.empty\<rparr>"

definition MockDatabaseStorage_Save ::
  "real \<Rightarrow> MockDatabaseStorage \<Rightarrow> Product \<Rightarrow> panic + (error option \<times> MockDatabaseStorage)" where
  "MockDatabaseStorage_Save draw mds p =
     (if draw < 0.1 then Inr (Some ErrFailedToSaveProduct, mds)
      else case map_assign (store mds) (ID p) p of
        Inl e \<Rightarrow> Inl e
      | Inr m' \<Rightarrow> Inr (None, mds\<lparr>store := m'\<rparr>))"

definition MockDatabaseStorage_GetByID ::
  "real \<Rightarrow> MockDatabaseStorage \<Rightarrow> go_int \<Rightarrow> heap \<Rightarrow>
     (ref option \<times> error option) \<times> MockDatabaseStorage \<times> heap" where
  "MockDatabaseStorage_GetByID draw mds id' h =
     (if draw < 0.1 then ((None, Some ErrFailedToGetProduct), mds, h)
      else case map_lookup (store mds) id' of
        Some p \<Rightarrow> (let (a, h') = alloc h p in ((Some (CellRef a), None), mds, h'))
      | None \<Rightarrow> ((None, Some ErrProductNotFound), mds, h))"

definition MockDatabaseStorage_Delete ::
  "real \<Rightarrow> MockDatabaseStorage \<Rightarrow> go_int \<Rightarrow> error option \<times> MockDatabaseStorage" where
  "MockDatabaseStorage_Delete draw mds id' =
     (if draw < 0.1 then (Some ErrFailedToDeleteProduct, mds)
      else case map_lookup (store mds) id' of
        None \<Rightarrow> (Some ErrProductNotFound, mds)
      | Some _ \<Rightarrow> (None, mds\<lparr>store := map_delete (store mds) id'\<rparr>))"

section \<open>ExternalAPI and the concurrent fetch\<close>

text \<open>
  \<open>fmt.Sprintf("%d", i)\<close>: the decimal digits of \<open>i\<close>, after a minus sign when \<open>i\<close> is
  negative.
\<close>

fun string_of_nat :: "nat \<Rightarrow> string" where
  "string_of_nat n =
     (if n < 10 then [''0123456789'' ! n]
      else string_of_nat (n div 10) @ [''0123456789'' ! (n mod 10)])"

declare string_of_nat.simps [simp del]

definition Sprintf_d :: "go_int \<Rightarrow> string" where
  "Sprintf_d i =
     (if sint i < 0 then CHR ''-'' # string_of_nat (nat (- sint i))
      else string_of_nat (nat (sint i)))"

text \<open>
  The conversion \<open>float64(i)\<close> of an \<open>int\<close>: sign bit, biased exponent of the leading bit,
  and the 52 bits below the leading bit, rounded to nearest, ties to even, when \<open>i\<close> has
  more than 53 significant bits (the carry of a round-up runs into the exponent field).
\<close>

fun bit_length :: "nat \<Rightarrow> nat" where
  "bit_length n = (if n = 0 then 0 else Suc (bit_length (n div 2)))"

declare bit_length.simps [simp del]

definition float64_of_nat :: "nat \<Rightarrow> 64 word" where
  "float64_of_nat n =
     (if n = 0 then 0
      else
        let e = bit_length n - 1;
            s = e - 52;
            m = (if e \<le> 52 then n * 2 ^ (52 - e) else n div 2 ^ s);
            r = (if e \<le> 52 then 0 else n mod 2 ^ s);
            up = (if 2 ^ s < 2 * r \<or> (2 ^ s = 2 * r \<and> odd m) then 1 else 0)
        in word_of_nat ((1023 + e) * 2 ^ 52 + (m - 2 ^ 52) + up))"

definition float64_of_int :: "go_int \<Rightarrow> float64" where
  "float64_of_int i =
     Float64 ((if sint i < 0 then 2 ^ 63 else 0) + float64_of_nat (nat \<bar>sint i\<bar>))"

text \<open>
  \<open>FetchProductDetails\<close> sleeps, draws \<open>rand.Float32()\<close> and, unless that is below \<open>0.1\<close>,
  draws \<open>rand.Intn(100)\<close> twice, for the price and for the quantity. The three values
  drawn are an argument of the model; the sleep changes no value and is left out. The
  returned \<open>*Product\<close> is \<open>nil\<close> (\<open>None\<close>) or points to a product nothing else refers to,
  which is given by its value.
\<close>

record ExternalAPI =
  BaseURL :: string

record fetch_draws =
  failure_draw :: real
  price_draw :: go_int
  quantity_draw :: go_int

definition FetchProductDetails ::
  "ExternalAPI \<Rightarrow> fetch_draws \<Rightarrow> go_int \<Rightarrow> Product option \<times> error option" where
  "FetchProductDetails api d id' =
     (if failure_draw d < 0.1 then (None, Some ErrFailedToFetchProductDetails)
      else (Some \<lparr>ID = id', Name = ''Product '' @ Sprintf_d id',
                   Price = float64_of_int (price_draw d), Quantity = quantity_draw d,
                   Category = ''Category''\<rparr>, None))"

text \<open>
  \<open>FetchProductsConcurrently\<close> starts one goroutine for each position of \<open>ids\<close>. A goroutine
  calls \<open>FetchProductDetails\<close> and then sends once, the error to \<open>errors\<close> or the product to
  \<open>results\<close>. Both channels are buffered with room for \<open>len(ids)\<close> values, so no send ever
  blocks, and a channel's content is the sequence of values sent to it, in the order of
  the sends. \<open>wg.Wait()\<close> returns when every goroutine has finished; the channels are
  closed then and \<open>results\<close> is drained into the returned slice.

  The goroutines share nothing but the two channels, so all that scheduling decides is
  the order of the sends: \<open>sched\<close> lists the positions of \<open>ids\<close> in the order in which
  their goroutines send, \<open>completion_order n sched\<close> says that each of the \<open>n\<close> goroutines
  sends exactly once, and \<open>draws ! j\<close> is what the goroutine of position \<open>j\<close> draws.
\<close>

record channels =
  results :: "Product option list"
  errors :: "error option list"

definition goroutine :: "ExternalAPI \<Rightarrow> fetch_draws \<Rightarrow> go_int \<Rightarrow> channels \<Rightarrow> channels" where
  "goroutine api d id' ch =
     (case FetchProductDetails api d id' of
        (product, err) \<Rightarrow>
          if err \<noteq> None then ch\<lparr>errors := errors ch @ [err]\<rparr>
          else ch\<lparr>results := results ch @ [product]\<rparr>)"

definition completion_order :: "nat \<Rightarrow> nat list \<Rightarrow> bool" where
  "completion_order n sched \<longleftrightarrow> distinct sched \<and> set sched = {0..<n}"

definition FetchProductsConcurrently ::
  "ExternalAPI \<Rightarrow> fetch_draws list \<Rightarrow> nat list \<Rightarrow> go_int list \<Rightarrow> Product option list" where
  "FetchProductsConcurrently api draws sched ids =
     (let ch = foldl (\<lambda>ch j. goroutine api (draws ! j) (ids ! j) ch)
                 \<lparr>results = [], errors = []\<rparr> sched
      in results ch)"

section \<open>Data of the package's tests\<close>

text \<open>
  The products the tests build; a field a test leaves out has Go's zero value.
\<close>

definition test_product :: Product where
  "test_product =
     \<lparr>ID = 1, Name = ''Test Product'', Price = Float64 0, Quantity = 0, Category = []\<rparr>"

definition p1 :: Product where
  "p1 = \<lparr>ID = 1, Name = ''Product 1'', Price = Float64 0, Quantity = 0,
          Category = ''Category 1''\<rparr>"

definition p2 :: Product where
  "p2 = \<lparr>ID = 2, Name = ''Product 2'', Price = Float64 0, Quantity = 0,
          Category = ''Category 2''\<rparr>"

definition p3 :: Product where
  "p3 = \<lparr>ID = 3, Name = ''Product 3'', Price = Float64 0, Quantity = 0,
          Category = ''Category 1''\<rparr>"

definition empty_heap :: heap where
  "empty_heap = \<lparr>cells = Map.empty, next_addr = 0\<rparr>"

text \<open>The inventory of \<open>TestInventory_ListByCategory\<close>.\<close>

definition test_inventory :: Inventory where
  "test_inventory = \<lparr>Inventory.Products = Some [1 \<mapsto> p1, 2 \<mapsto> p2, 3 \<mapsto> p3]\<rparr>"

text \<open>An API value, and draws of a fetch that succeeds and of one that fails.\<close>

definition test_api :: ExternalAPI where
  "test_api = \<lparr>BaseURL = ''https://api.example.com''\<rparr>"

definition draws_ok :: fetch_draws where
  "draws_ok = \<lparr>failure_draw = 0.5, price_draw = 10, quantity_draw = 3\<rparr>"

definition draws_failed :: fetch_draws where
  "draws_failed = \<lparr>failure_draw = 0.05, price_draw = 10, quantity_draw = 3\<rparr>"

section \<open>Properties of the product methods\<close>

lemma sint_sub_in_range:
  fixes q n :: go_int
  assumes "n \<le>s q" and "sint q - sint n < 2 ^ 63"
  shows "sint (q - n) = sint q - sint n"
proof -
  have "sint n \<le> sint q"
    using assms(1) by (simp add: word_sle_eq)
  then have "- (2 ^ 63) \<le> sint q - sint n"
    by simp
  with assms(2) have "signed_take_bit 63 (sint q - sint n) = sint q - sint n"
    by (intro signed_take_bit_int_eq_self) simp_all
  then show ?thesis
    by (simp add: sint_word_ariths)
qed

lemma sint_add_in_range:
  fixes q n :: go_int
  assumes "0 \<le> sint q" and "0 \<le> sint n" and "sint q + sint n < 2 ^ 63"
  shows "sint (q + n) = sint q + sint n"
proof -
  have "- (2 ^ 63) \<le> sint q + sint n"
    using assms(1,2) by simp
  with assms(3) have "signed_take_bit 63 (sint q + sint n) = sint q + sint n"
    by (intro signed_take_bit_int_eq_self) simp_all
  then show ?thesis
    by (simp add: sint_word_ariths)
qed

lemma apply_op_nonneg:
  assumes "0 \<le> sint (Quantity p)" and "op_in_range p x"
  shows "0 \<le> sint (Quantity (apply_op p x))"
proof (cases x)
  case (OpSell n)
  show ?thesis
  proof (cases "Quantity p <s n")
    case True
    with OpSell assms(1) show ?thesis
      by (simp add: Sell_def)
  next
    case False
    then have le: "n \<le>s Quantity p"
      by simp
    then have "sint n \<le> sint (Quantity p)"
      by (simp add: word_sle_eq)
    moreover have "sint (Quantity p - n) = sint (Quantity p) - sint n"
      using le assms(2) OpSell by (simp add: sint_sub_in_range)
    ultimately show ?thesis
      using OpSell False by (simp add: Sell_def)
  qed
next
  case (OpRestock n)
  with assms show ?thesis
    by (simp add: Restock_def sint_add_in_range)
next
  case (OpUpdatePrice x)
  with assms(1) show ?thesis
    by (simp add: UpdatePrice_def)
qed

text \<open>
  C2. For a product \<open>p\<close> and any \<open>n\<close>: if \<open>n \<le> Quantity p\<close> (signed), \<open>Sell p n\<close>
  returns no error and the quantity afterwards is \<open>Quantity p - n\<close> in Go's integer
  arithmetic, which is the exact difference whenever that fits into an \<open>int\<close> (always so
  for \<open>n \<ge> 0\<close>); if \<open>n > Quantity p\<close>, it returns \<open>ErrInsufficientStock\<close> and the
  quantity is unchanged. Every other field is unchanged in both cases.
\<close>

theorem Sell_spec:
  "(n \<le>s Quantity p \<longrightarrow>
      fst (Sell p n) = None \<and> Quantity (snd (Sell p n)) = Quantity p - n) \<and>
   (n \<le>s Quantity p \<and> sint (Quantity p) - sint n < 2 ^ 63 \<longrightarrow>
      sint (Quantity (snd (Sell p n))) = sint (Quantity p) - sint n) \<and>
   (Quantity p <s n \<longrightarrow>
      fst (Sell p n) = Some ErrInsufficientStock \<and> Quantity (snd (Sell p n)) = Quantity p) \<and>
   ID (snd (Sell p n)) = ID p \<and> Name (snd (Sell p n)) = Name p \<and>
   Price (snd (Sell p n)) = Price p \<and> Category (snd (Sell p n)) = Category p"
  by (auto simp: Sell_def sint_sub_in_range)

theorem Sell_spec_witness:
  "fst (Sell \<lparr>ID = 1, Name = ''Pen'', Price = Float64 0x4024000000000000, Quantity = 10,
              Category = ''Office''\<rparr> 5) = None \<and>
   Quantity (snd (Sell \<lparr>ID = 1, Name = ''Pen'', Price = Float64 0x4024000000000000,
              Quantity = 10, Category = ''Office''\<rparr> 5)) = 5 \<and>
   sint (Quantity (snd (Sell \<lparr>ID = 1, Name = ''Pen'', Price = Float64 0x4024000000000000,
              Quantity = 10, Category = ''Office''\<rparr> 5))) = 5 \<and>
   fst (Sell \<lparr>ID = 1, Name = ''Pen'', Price = Float64 0x4024000000000000, Quantity = 5,
              Category = ''Office''\<rparr> 10) = Some ErrInsufficientStock \<and>
   Quantity (snd (Sell \<lparr>ID = 1, Name = ''Pen'', Price = Float64 0x4024000000000000,
              Quantity = 5, Category = ''Office''\<rparr> 10)) = 5"
  using Sell_spec [of 5 "\<lparr>ID = 1, Name = ''Pen'', Price = Float64 0x4024000000000000,
                         Quantity = 10, Category = ''Office''\<rparr>"]
        Sell_spec [of 10 "\<lparr>ID = 1, Name = ''Pen'', Price = Float64 0x4024000000000000,
                          Quantity = 5, Category = ''Office''\<rparr>"]
  by (simp add: word_sle_eq word_sless_alt)

text \<open>
  C9. \<open>Restock n\<close> followed by \<open>Restock m\<close> leaves the product in the state that a single
  \<open>Restock (n + m)\<close> produces; the order of the two calls does not matter, and only the
  quantity field is touched, by adding the argument to it.
\<close>

theorem Restock_additive:
  "Restock (Restock p n) m = Restock p (n + m) \<and>
   Restock (Restock p n) m = Restock (Restock p m) n \<and>
   Restock p n = p\<lparr>Quantity := Quantity p + n\<rparr> \<and>
   ID (Restock p n) = ID p \<and> Name (Restock p n) = Name p \<and>
   Price (Restock p n) = Price p \<and> Category (Restock p n) = Category p"
  by (simp add: Restock_def add.assoc add.commute add.left_commute)

text \<open>
  C3, as stated: from a non-negative quantity, no sequence of \<open>Sell\<close>, \<open>Restock\<close> and
  \<open>UpdatePrice\<close> calls with arbitrary arguments makes the quantity negative. This fails:
  \<open>Restock\<close> adds its argument without looking at it, so restocking an empty product by
  \<open>-1\<close> leaves the quantity at \<open>-1\<close>.
\<close>

theorem Quantity_nonneg_counterexample:
  "\<not> (0 \<le>s Quantity \<lparr>ID = 1, Name = ''Pen'', Price = Float64 0, Quantity = 0,
                       Category = ''Office''\<rparr> \<longrightarrow>
      0 \<le>s Quantity (apply_ops \<lparr>ID = 1, Name = ''Pen'', Price = Float64 0, Quantity = 0,
                                Category = ''Office''\<rparr> [OpRestock (- 1)]))"
  by (simp add: Restock_def word_sle_eq)

text \<open>
  C3, amended: from a non-negative quantity, the quantity stays non-negative after any
  sequence of \<open>Sell\<close>, \<open>Restock\<close> and \<open>UpdatePrice\<close> calls in which every \<open>Restock\<close>
  argument is non-negative and no addition or subtraction leaves the range of \<open>int\<close>.
\<close>

theorem Quantity_nonneg_in_range:
  "0 \<le>s Quantity p \<Longrightarrow> ops_in_range p xs \<Longrightarrow> 0 \<le>s Quantity (apply_ops p xs)"
proof (induction xs arbitrary: p)
  case Nil
  then show ?case by simp
next
  case (Cons x xs)
  from Cons.prems have "0 \<le> sint (Quantity p)" and "op_in_range p x"
    by (simp_all add: word_sle_eq)
  then have "0 \<le> sint (Quantity (apply_op p x))"
    by (rule apply_op_nonneg)
  then have "0 \<le>s Quantity (apply_op p x)"
    by (simp add: word_sle_eq)
  moreover from Cons.prems have "ops_in_range (apply_op p x) xs"
    by simp
  ultimately show ?case
    using Cons.IH by simp
qed

theorem Quantity_nonneg_in_range_witness:
  "0 \<le>s Quantity \<lparr>ID = 1, Name = ''Pen'', Price = Float64 0, Quantity = 3,
                    Category = ''Office''\<rparr> \<and>
   ops_in_range \<lparr>ID = 1, Name = ''Pen'', Price = Float64 0, Quantity = 3,
                  Category = ''Office''\<rparr>
     [OpSell 2, OpSell 5, OpRestock 4, OpUpdatePrice (Float64 0x4024000000000000), OpSell 5] \<and>
   0 \<le>s Quantity (apply_ops \<lparr>ID = 1, Name = ''Pen'', Price = Float64 0, Quantity = 3,
                              Category = ''Office''\<rparr>
     [OpSell 2, OpSell 5, OpRestock 4, OpUpdatePrice (Float64 0x4024000000000000), OpSell 5]) \<and>
   Quantity (apply_ops \<lparr>ID = 1, Name = ''Pen'', Price = Float64 0, Quantity = 3,
                              Category = ''Office''\<rparr>
     [OpSell 2, OpSell 5, OpRestock 4, OpUpdatePrice (Float64 0x4024000000000000), OpSell 5]) = 0"
proof -
  let ?p = "\<lparr>ID = 1, Name = ''Pen'', Price = Float64 0, Quantity = 3 :: go_int,
             Category = ''Office''\<rparr>"
  let ?xs = "[OpSell 2, OpSell 5, OpRestock 4, OpUpdatePrice (Float64 0x4024000000000000),
              OpSell 5]"
  have h1: "0 \<le>s Quantity ?p"
    by (simp add: word_sle_eq)
  have h2: "ops_in_range ?p ?xs"
    by (simp add: Sell_def Restock_def UpdatePrice_def word_sless_alt)
  have "Quantity (apply_ops ?p ?xs) = 0"
    by (simp add: Sell_def Restock_def UpdatePrice_def word_sless_alt)
  with h1 h2 Quantity_nonneg_in_range [OF h1 h2] show ?thesis
    by simp
qed

section \<open>Properties of the inventory\<close>

text \<open>
  C6, as stated: for every inventory, \<open>AddProduct\<close> of a product whose ID is absent
  succeeds and stores the product. This fails for the zero-value \<open>Inventory\<close>, whose map
  is nil: no ID is present in it, and line 103's assignment to an entry of the nil map
  panics instead of returning.
\<close>

theorem AddProduct_nil_map_counterexample:
  "map_lookup (Inventory.Products \<lparr>Inventory.Products = None\<rparr>) (ID test_product) = None \<and>
   AddProduct \<lparr>Inventory.Products = None\<rparr> test_product = Inl AssignmentToEntryInNilMap"
  by (simp add: AddProduct_def map_lookup_def map_assign_def)

text \<open>
  C6, amended: for every inventory whose map has been made (is not nil) and every product
  \<open>p\<close>: if \<open>ID p\<close> is already a key, \<open>AddProduct\<close> returns \<open>ErrProductAlreadyExists\<close> and
  the inventory is unchanged. If it is not, \<open>AddProduct\<close> returns no error, the inventory
  afterwards (its map still not nil) maps \<open>ID p\<close> to \<open>p\<close>, every other entry is as before,
  and adding any product with the same ID again fails and changes nothing.
\<close>

theorem AddProduct_spec:
  assumes "Inventory.Products i \<noteq> None"
  shows
  "(map_lookup (Inventory.Products i) (ID p) \<noteq> None \<longrightarrow>
      AddProduct i p = Inr (Some ErrProductAlreadyExists, i)) \<and>
   (map_lookup (Inventory.Products i) (ID p) = None \<longrightarrow>
      (\<exists>i'. AddProduct i p = Inr (None, i') \<and>
            Inventory.Products i' \<noteq> None \<and>
            map_lookup (Inventory.Products i') (ID p) = Some p \<and>
            (\<forall>k. k \<noteq> ID p \<longrightarrow>
               map_lookup (Inventory.Products i') k = map_lookup (Inventory.Products i) k) \<and>
            (\<forall>p'. ID p' = ID p \<longrightarrow>
               AddProduct i' p' = Inr (Some ErrProductAlreadyExists, i'))))"
  using assms
  by (auto simp: AddProduct_def map_lookup_def map_assign_def split: option.splits)

theorem AddProduct_spec_witness:
  "Inventory.Products \<lparr>Inventory.Products = Some Map.empty\<rparr> \<noteq> None \<and>
   map_lookup (Inventory.Products \<lparr>Inventory.Products = Some Map.empty\<rparr>) (ID test_product) =
     None \<and>
   AddProduct \<lparr>Inventory.Products = Some Map.empty\<rparr> test_product =
     Inr (None, \<lparr>Inventory.Products = Some [1 \<mapsto> test_product]\<rparr>) \<and>
   AddProduct \<lparr>Inventory.Products = Some [1 \<mapsto> test_product]\<rparr> test_product =
     Inr (Some ErrProductAlreadyExists, \<lparr>Inventory.Products = Some [1 \<mapsto> test_product]\<rparr>) \<and>
   map_lookup (Inventory.Products \<lparr>Inventory.Products = Some [1 \<mapsto> p1]\<rparr>) (ID test_product) \<noteq>
     None \<and>
   AddProduct \<lparr>Inventory.Products = Some [1 \<mapsto> p1]\<rparr> test_product =
     Inr (Some ErrProductAlreadyExists, \<lparr>Inventory.Products = Some [1 \<mapsto> p1]\<rparr>)"
proof -
  have h1: "Inventory.Products \<lparr>Inventory.Products = Some Map.empty\<rparr> \<noteq> None"
    by simp
  have h2: "Inventory.Products \<lparr>Inventory.Products = Some [1 \<mapsto> p1]\<rparr> \<noteq> None"
    by simp
  from AddProduct_spec [OF h1, of test_product] AddProduct_spec [OF h2, of test_product]
  show ?thesis
    by (simp add: test_product_def AddProduct_def map_lookup_def map_assign_def)
qed

section \<open>Properties of the storages\<close>

text \<open>
  C5, as stated: \<open>Save\<close> upserts by ID and returns success, for every \<open>MemoryStorage\<close>.
  This fails for the zero-value \<open>MemoryStorage\<close>, whose map is nil: line 150's assignment
  to an entry of the nil map panics instead of returning.
\<close>

theorem MemoryStorage_Save_nil_map_counterexample:
  "MemoryStorage_Save \<lparr>MemoryStorage.Products = None\<rparr> test_product =
     Inl AssignmentToEntryInNilMap"
  by (simp add: MemoryStorage_Save_def map_assign_def)

text \<open>
  C5, amended. For a \<open>MemoryStorage\<close> whose map has been made (is not nil, as
  \<open>NewMemoryStorage\<close> returns it), \<open>Save\<close> returns no error and stores the product under
  its ID, whether the ID was present or not, leaving every other entry as it was and the
  map not nil. For every \<open>MemoryStorage\<close>: \<open>GetByID\<close> leaves the storage as it was,
  returns \<open>ErrProductNotFound\<close> (and a nil pointer) exactly when the ID is absent, and
  otherwise no error and a pointer to the stored product's value; \<open>Delete\<close> returns
  \<open>ErrProductNotFound\<close> exactly when the ID is absent, changing nothing, and otherwise
  returns no error and removes that entry and no other.
\<close>

theorem MemoryStorage_contract:
  "(MemoryStorage.Products m \<noteq> None \<longrightarrow>
      (\<exists>m'. MemoryStorage_Save m p = Inr (None, m') \<and>
            MemoryStorage.Products m' \<noteq> None \<and>
            map_lookup (MemoryStorage.Products m') (ID p) = Some p \<and>
            (\<forall>j. j \<noteq> ID p \<longrightarrow>
               map_lookup (MemoryStorage.Products m') j =
                 map_lookup (MemoryStorage.Products m) j))) \<and>
   (case MemoryStorage_GetByID m k h of ((ptr, err), m', h') \<Rightarrow>
      m' = m \<and>
      (err = Some ErrProductNotFound \<longleftrightarrow> map_lookup (MemoryStorage.Products m) k = None) \<and>
      (map_lookup (MemoryStorage.Products m) k = None \<longrightarrow> ptr = None \<and> h' = h) \<and>
      (map_lookup (MemoryStorage.Products m) k \<noteq> None \<longrightarrow>
         err = None \<and> ptr \<noteq> None \<and>
         deref (MemoryStorage.Products m', h') ptr = map_lookup (MemoryStorage.Products m) k)) \<and>
   (fst (MemoryStorage_Delete m k) = Some ErrProductNotFound \<longleftrightarrow>
      map_lookup (MemoryStorage.Products m) k = None) \<and>
   (map_lookup (MemoryStorage.Products m) k = None \<longrightarrow> snd (MemoryStorage_Delete m k) = m) \<and>
   (map_lookup (MemoryStorage.Products m) k \<noteq> None \<longrightarrow>
      fst (MemoryStorage_Delete m k) = None \<and>
      map_lookup (MemoryStorage.Products (snd (MemoryStorage_Delete m k))) k = None \<and>
      (\<forall>j. j \<noteq> k \<longrightarrow>
         map_lookup (MemoryStorage.Products (snd (MemoryStorage_Delete m k))) j =
           map_lookup (MemoryStorage.Products m) j))"
  by (auto simp: MemoryStorage_Save_def MemoryStorage_GetByID_def MemoryStorage_Delete_def
      map_lookup_def map_assign_def map_delete_def alloc_def split: option.splits)

theorem MemoryStorage_contract_witness:
  "MemoryStorage.Products NewMemoryStorage \<noteq> None \<and>
   MemoryStorage_Save NewMemoryStorage test_product =
     Inr (None, \<lparr>MemoryStorage.Products = Some [1 \<mapsto> test_product]\<rparr>) \<and>
   MemoryStorage_Save \<lparr>MemoryStorage.Products = Some [1 \<mapsto> p1]\<rparr> test_product =
     Inr (None, \<lparr>MemoryStorage.Products = Some [1 \<mapsto> test_product]\<rparr>) \<and>
   map_lookup (MemoryStorage.Products \<lparr>MemoryStorage.Products = Some [1 \<mapsto> p1]\<rparr>) 1 \<noteq> None \<and>
   MemoryStorage_GetByID \<lparr>MemoryStorage.Products = Some [1 \<mapsto> p1]\<rparr> 1 empty_heap =
     ((Some (CellRef 0), None), \<lparr>MemoryStorage.Products = Some [1 \<mapsto> p1]\<rparr>,
      \<lparr>cells = [0 \<mapsto> p1], next_addr = 1\<rparr>) \<and>
   MemoryStorage_Delete \<lparr>MemoryStorage.Products = Some [1 \<mapsto> p1]\<rparr> 1 =
     (None, \<lparr>MemoryStorage.Products = Some Map.empty\<rparr>) \<and>
   map_lookup (MemoryStorage.Products NewMemoryStorage) 1 = None \<and>
   MemoryStorage_GetByID NewMemoryStorage 1 empty_heap =
     ((None, Some ErrProductNotFound), NewMemoryStorage, empty_heap) \<and>
   MemoryStorage_Delete NewMemoryStorage 1 = (Some ErrProductNotFound, NewMemoryStorage)"
  using MemoryStorage_contract [of NewMemoryStorage test_product 1 empty_heap]
        MemoryStorage_contract
          [of "\<lparr>MemoryStorage.Products = Some [1 \<mapsto> p1]\<rparr>" test_product 1 empty_heap]
  by (simp add: NewMemoryStorage_def MemoryStorage_Save_def MemoryStorage_GetByID_def
      MemoryStorage_Delete_def map_lookup_def map_assign_def map_delete_def alloc_def
      empty_heap_def test_product_def)

text \<open>
  C4. \<open>MockDatabaseStorage\<close>, with the value drawn by \<open>rand.Float32()\<close> as an argument:
  when the draw is below \<open>0.1\<close>, \<open>GetByID\<close> returns \<open>ErrFailedToGetProduct\<close> and
  \<open>Delete\<close> returns \<open>ErrFailedToDeleteProduct\<close>, whether or not the key is in the store;
  when it is not, the call goes on to the not-found/success logic. Both transient errors
  differ from \<open>ErrProductNotFound\<close>, and a call that returns an error leaves the store
  (and the heap) as it was. This holds for every store, the nil map included.
\<close>

theorem MockDatabaseStorage_failure_first:
  "(draw < 0.1 \<longrightarrow>
      MockDatabaseStorage_GetByID draw mds k h = ((None, Some ErrFailedToGetProduct), mds, h) \<and>
      MockDatabaseStorage_Delete draw mds k = (Some ErrFailedToDeleteProduct, mds)) \<and>
   (\<not> draw < 0.1 \<longrightarrow>
      (case MockDatabaseStorage_GetByID draw mds k h of ((ptr, err), mds', h') \<Rightarrow>
         (map_lookup (store mds) k = None \<longrightarrow> ptr = None \<and> err = Some ErrProductNotFound) \<and>
         (map_lookup (store mds) k \<noteq> None \<longrightarrow>
            err = None \<and> ptr \<noteq> None \<and>
            deref (store mds', h') ptr = map_lookup (store mds) k)) \<and>
      (map_lookup (store mds) k = None \<longrightarrow>
         MockDatabaseStorage_Delete draw mds k = (Some ErrProductNotFound, mds)) \<and>
      (map_lookup (store mds) k \<noteq> None \<longrightarrow>
         MockDatabaseStorage_Delete draw mds k =
           (None, mds\<lparr>store := map_delete (store mds) k\<rparr>) \<and>
         map_lookup (map_delete (store mds) k) k = None \<and>
         (\<forall>j. j \<noteq> k \<longrightarrow> map_lookup (map_delete (store mds) k) j = map_lookup (store mds) j))) \<and>
   ErrFailedToGetProduct \<noteq> ErrProductNotFound \<and>
   ErrFailedToDeleteProduct \<noteq> ErrProductNotFound \<and>
   (case MockDatabaseStorage_GetByID draw mds k h of ((ptr, err), mds', h') \<Rightarrow>
      mds' = mds \<and> (err \<noteq> None \<longrightarrow> ptr = None \<and> h' = h)) \<and>
   (fst (MockDatabaseStorage_Delete draw mds k) \<noteq> None \<longrightarrow>
      snd (MockDatabaseStorage_Delete draw mds k) = mds)"
  by (auto simp: MockDatabaseStorage_GetByID_def MockDatabaseStorage_Delete_def
      map_lookup_def map_delete_def alloc_def split: option.splits)

theorem MockDatabaseStorage_failure_first_witness:
  "(0.05 :: real) < 0.1 \<and>
   MockDatabaseStorage_GetByID 0.05 \<lparr>store = Some [1 \<mapsto> test_product]\<rparr> 1 empty_heap =
     ((None, Some ErrFailedToGetProduct), \<lparr>store = Some [1 \<mapsto> test_product]\<rparr>, empty_heap) \<and>
   MockDatabaseStorage_Delete 0.05 \<lparr>store = Some [1 \<mapsto> test_product]\<rparr> 1 =
     (Some ErrFailedToDeleteProduct, \<lparr>store = Some [1 \<mapsto> test_product]\<rparr>) \<and>
   \<not> (0.5 :: real) < 0.1 \<and>
   map_lookup (store \<lparr>store = Some [1 \<mapsto> test_product]\<rparr>) 1 \<noteq> None \<and>
   MockDatabaseStorage_GetByID 0.5 \<lparr>store = Some [1 \<mapsto> test_product]\<rparr> 1 empty_heap =
     ((Some (CellRef 0), None), \<lparr>store = Some [1 \<mapsto> test_product]\<rparr>,
      \<lparr>cells = [0 \<mapsto> test_product], next_addr = 1\<rparr>) \<and>
   MockDatabaseStorage_Delete 0.5 \<lparr>store = Some [1 \<mapsto> test_product]\<rparr> 1 =
     (None, \<lparr>store = Some Map.empty\<rparr>) \<and>
   map_lookup (store \<lparr>store = Some [1 \<mapsto> test_product]\<rparr>) 2 = None \<and>
   MockDatabaseStorage_Delete 0.5 \<lparr>store = Some [1 \<mapsto> test_product]\<rparr> 2 =
     (Some ErrProductNotFound, \<lparr>store = Some [1 \<mapsto> test_product]\<rparr>)"
  using MockDatabaseStorage_failure_first
          [of "0.05" "\<lparr>store = Some [1 \<mapsto> test_product]\<rparr>" 1 empty_heap]
        MockDatabaseStorage_failure_first
          [of "0.5" "\<lparr>store = Some [1 \<mapsto> test_product]\<rparr>" 1 empty_heap]
        MockDatabaseStorage_failure_first
          [of "0.5" "\<lparr>store = Some [1 \<mapsto> test_product]\<rparr>" 2 empty_heap]
  by (simp add: MockDatabaseStorage_GetByID_def MockDatabaseStorage_Delete_def
      map_lookup_def map_delete_def alloc_def empty_heap_def)

section \<open>Listing by category\<close>

lemma map_keys_iff: "k \<in> map_keys m \<longleftrightarrow> map_lookup m k \<noteq> None"
  by (auto simp: map_keys_def map_lookup_def split: option.splits)

lemma ListByCategory_loop_eq:
  "set ks \<subseteq> map_keys m \<Longrightarrow>
   ListByCategory_loop m c ks acc =
     acc @ map (\<lambda>k. the (map_lookup m k))
             (filter (\<lambda>k. Category (the (map_lookup m k)) = c) ks)"
  by (induction ks arbitrary: acc) (auto simp: map_keys_iff split: option.splits)

lemma entries_as_image:
  "{(k, p). map_lookup m k = Some p \<and> Category p = c} =
   (\<lambda>k. (k, the (map_lookup m k))) ` {k \<in> map_keys m. Category (the (map_lookup m k)) = c}"
  by (auto simp: image_iff map_keys_iff)

text \<open>
  C7. Whatever order the \<open>range\<close> loop visits the inventory in, \<open>ListByCategory i order c\<close>
  holds one copy of the product of every entry whose category is \<open>c\<close> and nothing else:
  as a multiset it is the products of the entries \<open>(k, p)\<close> with \<open>Category p = c\<close>, as a set
  it is the stored products of category \<open>c\<close>, its length is the number of matching keys,
  and it is the empty sequence when no stored product matches. This holds for every
  inventory, the one with a nil map included.
\<close>

theorem ListByCategory_spec:
  assumes "range_order (Inventory.Products i) order"
  shows
  "mset (ListByCategory i order c) =
     image_mset snd
       (mset_set {(k, p). map_lookup (Inventory.Products i) k = Some p \<and> Category p = c}) \<and>
   set (ListByCategory i order c) =
     {p. (\<exists>k. map_lookup (Inventory.Products i) k = Some p) \<and> Category p = c} \<and>
   length (ListByCategory i order c) =
     card {k. \<exists>p. map_lookup (Inventory.Products i) k = Some p \<and> Category p = c} \<and>
   ((\<forall>k p. map_lookup (Inventory.Products i) k = Some p \<longrightarrow> Category p \<noteq> c) \<longrightarrow>
      ListByCategory i order c = [])"
proof -
  let ?m = "Inventory.Products i"
  let ?v = "\<lambda>k. the (map_lookup ?m k)"
  let ?K = "{k \<in> map_keys ?m. Category (?v k) = c}"
  let ?ks = "filter (\<lambda>k. Category (?v k) = c) order"
  from assms have dist: "distinct order" and keys: "set order = map_keys ?m"
    by (simp_all add: range_order_def)
  have res: "ListByCategory i order c = map ?v ?ks"
    using keys by (simp add: ListByCategory_def ListByCategory_loop_eq)
  have K: "set ?ks = ?K"
    using keys by auto
  have dK: "distinct ?ks"
    using dist by simp
  have msK: "mset ?ks = mset_set ?K"
    using mset_set_set [OF dK] K by simp
  have inj: "inj_on (\<lambda>k. (k, ?v k)) ?K"
    by (rule inj_onI) simp
  have "image_mset snd (mset_set {(k, p). map_lookup ?m k = Some p \<and> Category p = c}) =
        image_mset snd (image_mset (\<lambda>k. (k, ?v k)) (mset_set ?K))"
    unfolding entries_as_image using image_mset_mset_set [OF inj] by simp
  also have "\<dots> = image_mset ?v (mset_set ?K)"
    by (simp add: image_mset.compositionality comp_def)
  also have "\<dots> = mset (ListByCategory i order c)"
    by (simp add: res msK [symmetric])
  finally have one: "mset (ListByCategory i order c) =
      image_mset snd (mset_set {(k, p). map_lookup ?m k = Some p \<and> Category p = c})"
    by (rule sym)
  have two: "set (ListByCategory i order c) =
      {p. (\<exists>k. map_lookup ?m k = Some p) \<and> Category p = c}"
  proof (intro set_eqI iffI)
    fix p assume "p \<in> set (ListByCategory i order c)"
    then obtain k where "k \<in> ?K" and "p = ?v k"
      unfolding res set_map K by blast
    then show "p \<in> {p. (\<exists>k. map_lookup ?m k = Some p) \<and> Category p = c}"
      by (auto simp: map_keys_iff)
  next
    fix p assume "p \<in> {p. (\<exists>k. map_lookup ?m k = Some p) \<and> Category p = c}"
    then obtain k where "map_lookup ?m k = Some p" and "Category p = c"
      by auto
    then have "k \<in> ?K" and "p = ?v k"
      by (auto simp: map_keys_iff)
    then show "p \<in> set (ListByCategory i order c)"
      unfolding res set_map K by blast
  qed
  have "length (ListByCategory i order c) = card ?K"
    using distinct_card [OF dK] unfolding K by (simp add: res)
  moreover have "?K = {k. \<exists>p. map_lookup ?m k = Some p \<and> Category p = c}"
    by (auto simp: map_keys_iff)
  ultimately have three: "length (ListByCategory i order c) =
      card {k. \<exists>p. map_lookup ?m k = Some p \<and> Category p = c}"
    by simp
  have four: "(\<forall>k p. map_lookup ?m k = Some p \<longrightarrow> Category p \<noteq> c) \<longrightarrow>
      ListByCategory i order c = []"
  proof
    assume none: "\<forall>k p. map_lookup ?m k = Some p \<longrightarrow> Category p \<noteq> c"
    have "k \<notin> ?K" for k
    proof
      assume "k \<in> ?K"
      then obtain p where "map_lookup ?m k = Some p" and "Category p = c"
        by (auto simp: map_keys_iff)
      with none show False
        by blast
    qed
    then have "?K = {}"
      by blast
    with K have "?ks = []"
      by (metis set_empty)
    then show "ListByCategory i order c = []"
      by (simp add: res)
  qed
  from one two three four show ?thesis
    by (intro conjI)
qed

theorem ListByCategory_spec_witness:
  "range_order (Inventory.Products test_inventory) [2, 3, 1] \<and>
   ListByCategory test_inventory [2, 3, 1] ''Category 1'' = [p3, p1] \<and>
   mset [p3, p1] =
     image_mset snd
       (mset_set {(k, p). map_lookup (Inventory.Products test_inventory) k = Some p \<and>
                          Category p = ''Category 1''}) \<and>
   ListByCategory test_inventory [2, 3, 1] ''Category 3'' = [] \<and>
   range_order (Inventory.Products \<lparr>Inventory.Products = None\<rparr>) [] \<and>
   ListByCategory \<lparr>Inventory.Products = None\<rparr> [] ''Category 1'' = []"
proof -
  have h: "range_order (Inventory.Products test_inventory) [2, 3, 1]"
    by (auto simp: range_order_def map_keys_def test_inventory_def)
  have r: "ListByCategory test_inventory [2, 3, 1] ''Category 1'' = [p3, p1]"
    by (simp add: ListByCategory_def map_lookup_def test_inventory_def p1_def p2_def p3_def)
  have n: "\<forall>k p. map_lookup (Inventory.Products test_inventory) k = Some p \<longrightarrow>
      Category p \<noteq> ''Category 3''"
    by (auto simp: map_lookup_def test_inventory_def p1_def p2_def p3_def split: if_splits)
  have z: "range_order (Inventory.Products \<lparr>Inventory.Products = None\<rparr>) []"
    by (simp add: range_order_def map_keys_def)
  from h r n z ListByCategory_spec [OF h, of "''Category 1''"]
    ListByCategory_spec [OF h, of "''Category 3''"]
    ListByCategory_spec [OF z, of "''Category 1''"]
  show ?thesis
    by (simp add: ListByCategory_def)
qed

section \<open>Lookups hand out copies\<close>

lemma heap_ok_fresh: "heap_ok h \<Longrightarrow> cells h (next_addr h) = None"
  by (simp add: heap_ok_def)

lemma apply_ops_at_CellRef:
  "cells h a = Some p \<Longrightarrow>
   apply_ops_at (CellRef a) xs (m, h) = (m, h\<lparr>cells := (cells h)(a \<mapsto> apply_ops p xs)\<rparr>)"
proof (induction xs arbitrary: h p)
  case Nil
  then have "(cells h)(a \<mapsto> p) = cells h"
    by (simp add: map_upd_triv)
  then show ?case
    by simp
next
  case (Cons x xs)
  let ?h = "h\<lparr>cells := (cells h)(a \<mapsto> apply_op p x)\<rparr>"
  have step: "apply_op_at (CellRef a) x (m, h) = (m, ?h)"
    using Cons.prems by simp
  have "apply_ops_at (CellRef a) (x # xs) (m, h) = apply_ops_at (CellRef a) xs (m, ?h)"
    by (simp only: apply_ops_at.simps step)
  also have "\<dots> = (m, ?h\<lparr>cells := (cells ?h)(a \<mapsto> apply_ops (apply_op p x) xs)\<rparr>)"
    by (rule Cons.IH) simp
  also have "\<dots> = (m, h\<lparr>cells := (cells h)(a \<mapsto> apply_ops p (x # xs))\<rparr>)"
    by simp
  finally show ?case .
qed

lemma FindProductByName_loop_None:
  "FindProductByName_loop m name ks = None \<longleftrightarrow>
   (\<forall>k\<in>set ks. \<forall>p. map_lookup m k = Some p \<longrightarrow> Name p \<noteq> name)"
  by (induction ks) (auto split: option.splits)

lemma FindProductByName_loop_first:
  "FindProductByName_loop m name ks = Some p \<Longrightarrow>
   \<exists>ks1 k ks2. ks = ks1 @ k # ks2 \<and> map_lookup m k = Some p \<and> Name p = name \<and>
     (\<forall>j\<in>set ks1. \<forall>q. map_lookup m j = Some q \<longrightarrow> Name q \<noteq> name)"
proof (induction ks)
  case Nil
  then show ?case by simp
next
  case (Cons k ks)
  show ?case
  proof (cases "\<exists>q. map_lookup m k = Some q \<and> Name q = name")
    case True
    with Cons.prems have "map_lookup m k = Some p \<and> Name p = name"
      by (auto split: option.splits if_splits)
    then have "k # ks = [] @ k # ks \<and> map_lookup m k = Some p \<and> Name p = name \<and>
        (\<forall>j\<in>set []. \<forall>q. map_lookup m j = Some q \<longrightarrow> Name q \<noteq> name)"
      by simp
    then show ?thesis
      by blast
  next
    case False
    with Cons.prems have "FindProductByName_loop m name ks = Some p"
      by (auto split: option.splits if_splits)
    from Cons.IH [OF this] obtain ks1 j ks2 where
      "ks = ks1 @ j # ks2" and "map_lookup m j = Some p" and "Name p = name" and
      "\<forall>j\<in>set ks1. \<forall>q. map_lookup m j = Some q \<longrightarrow> Name q \<noteq> name"
      by blast
    with False have "k # ks = (k # ks1) @ j # ks2 \<and> map_lookup m j = Some p \<and> Name p = name \<and>
        (\<forall>j\<in>set (k # ks1). \<forall>q. map_lookup m j = Some q \<longrightarrow> Name q \<noteq> name)"
      by auto
    then show ?thesis
      by blast
  qed
qed

text \<open>
  C10. Let the heap be well formed and \<open>order\<close> an order the \<open>range\<close> loop can take.

  \<open>MemoryStorage.GetByID\<close> returns the storage as it was. If the key is absent it returns
  a nil pointer and \<open>ErrProductNotFound\<close> and allocates nothing. If \<open>p\<close> is stored under
  the key, it returns no error and a pointer to a heap cell that was not in use before and
  now holds \<open>p\<close>, no other cell changing: a copy, not the map's element. After any
  sequence of \<open>Sell\<close>, \<open>Restock\<close> and \<open>UpdatePrice\<close> calls through that pointer the map
  of the storage is what it was, the cell holds the mutated product, and the same lookup
  again returns a different pointer, to a cell that holds \<open>p\<close> as stored.

  \<open>FindProductByName\<close> returns the inventory as it was. If no stored product has the
  name it returns a nil pointer and \<open>ErrProductNotFound\<close> and allocates nothing. If one
  has, it returns no error and a pointer to a fresh cell that holds a copy of the product
  of the first key in \<open>order\<close> whose product has the name, no other cell changing; and
  mutations through the pointer leave the inventory's map as it was, as above.
\<close>

theorem lookup_returns_copy:
  assumes "heap_ok h" and "range_order (Inventory.Products i) order"
  shows
  "(case MemoryStorage_GetByID m k h of ((ptr, err), m', h') \<Rightarrow>
      m' = m \<and>
      (map_lookup (MemoryStorage.Products m) k = None \<longrightarrow>
         ptr = None \<and> err = Some ErrProductNotFound \<and> h' = h) \<and>
      (\<forall>p. map_lookup (MemoryStorage.Products m) k = Some p \<longrightarrow>
         err = None \<and> ptr = Some (CellRef (next_addr h)) \<and>
         cells h (next_addr h) = None \<and> cells h' (next_addr h) = Some p \<and>
         (\<forall>b. b \<noteq> next_addr h \<longrightarrow> cells h' b = cells h b) \<and>
         (\<forall>xs. case apply_ops_at (CellRef (next_addr h)) xs (MemoryStorage.Products m', h') of
                 (f, h'') \<Rightarrow>
                   f = MemoryStorage.Products m \<and>
                   cells h'' (next_addr h) = Some (apply_ops p xs) \<and>
                   (case MemoryStorage_GetByID (m'\<lparr>MemoryStorage.Products := f\<rparr>) k h'' of
                      ((ptr2, err2), m2, h2) \<Rightarrow>
                        m2 = m \<and> err2 = None \<and> ptr2 \<noteq> ptr \<and>
                        deref (MemoryStorage.Products m2, h2) ptr2 = Some p \<and>
                        deref (MemoryStorage.Products m2, h2) ptr = Some (apply_ops p xs))))) \<and>
   (case FindProductByName i order name h of ((ptr, err), i', h') \<Rightarrow>
      i' = i \<and>
      ((\<forall>j q. map_lookup (Inventory.Products i) j = Some q \<longrightarrow> Name q \<noteq> name) \<longrightarrow>
         ptr = None \<and> err = Some ErrProductNotFound \<and> h' = h) \<and>
      ((\<exists>j q. map_lookup (Inventory.Products i) j = Some q \<and> Name q = name) \<longrightarrow>
         err = None \<and> ptr = Some (CellRef (next_addr h)) \<and>
         cells h (next_addr h) = None \<and>
         (\<forall>b. b \<noteq> next_addr h \<longrightarrow> cells h' b = cells h b) \<and>
         (\<exists>ks1 j ks2 p.
            order = ks1 @ j # ks2 \<and>
            map_lookup (Inventory.Products i) j = Some p \<and> Name p = name \<and>
            (\<forall>j'\<in>set ks1. \<forall>q. map_lookup (Inventory.Products i) j' = Some q \<longrightarrow> Name q \<noteq> name) \<and>
            cells h' (next_addr h) = Some p \<and>
            (\<forall>xs. case apply_ops_at (CellRef (next_addr h)) xs (Inventory.Products i', h') of
                    (f, h'') \<Rightarrow>
                      f = Inventory.Products i \<and>
                      cells h'' (next_addr h) = Some (apply_ops p xs) \<and>
                      (case FindProductByName (i'\<lparr>Inventory.Products := f\<rparr>) order name h'' of
                         ((ptr2, err2), i2, h2) \<Rightarrow>
                           i2 = i \<and> err2 = None \<and> ptr2 \<noteq> ptr \<and>
                           deref (Inventory.Products i2, h2) ptr2 = Some p \<and>
                           deref (Inventory.Products i2, h2) ptr = Some (apply_ops p xs))))))"
  (is "?S \<and> ?I")
proof -
  let ?a = "next_addr h"
  define h1 where "h1 p = h\<lparr>cells := (cells h)(?a \<mapsto> p), next_addr := Suc ?a\<rparr>" for p
  define h2 where "h2 p xs = (h1 p)\<lparr>cells := (cells (h1 p))(?a \<mapsto> apply_ops p xs)\<rparr>" for p xs
  define h3 where
    "h3 p xs = (h2 p xs)\<lparr>cells := (cells (h2 p xs))(Suc ?a \<mapsto> p), next_addr := Suc (Suc ?a)\<rparr>"
    for p xs
  have fresh: "cells h ?a = None"
    using assms(1) by (rule heap_ok_fresh)
  have alloc1: "alloc h p = (?a, h1 p)" for p
    by (simp add: alloc_def h1_def)
  have cell1: "cells (h1 p) ?a = Some p" for p
    by (simp add: h1_def)
  have frame1: "cells (h1 p) b = cells h b" if "b \<noteq> ?a" for p b
    using that by (simp add: h1_def)
  have mut: "apply_ops_at (CellRef ?a) xs (f, h1 p) = (f, h2 p xs)" for f p xs
    unfolding h2_def using cell1 by (rule apply_ops_at_CellRef)
  have cell2: "cells (h2 p xs) ?a = Some (apply_ops p xs)" for p xs
    by (simp add: h2_def)
  have alloc2: "alloc (h2 p xs) p = (Suc ?a, h3 p xs)" for p xs
    by (simp add: alloc_def h3_def h2_def h1_def)
  have cell3: "cells (h3 p xs) (Suc ?a) = Some p \<and> cells (h3 p xs) ?a = Some (apply_ops p xs)"
    for p xs
    by (simp add: h3_def h2_def)
  have S: ?S
  proof (cases "map_lookup (MemoryStorage.Products m) k")
    case None
    then show ?thesis
      by (simp add: MemoryStorage_GetByID_def)
  next
    case (Some p)
    have first: "MemoryStorage_GetByID m k h = ((Some (CellRef ?a), None), m, h1 p)"
      using Some by (simp add: MemoryStorage_GetByID_def alloc1)
    have second: "MemoryStorage_GetByID m k (h2 p xs) = ((Some (CellRef (Suc ?a)), None), m, h3 p xs)"
      for xs
      using Some by (simp add: MemoryStorage_GetByID_def alloc2)
    show ?thesis
      using Some fresh cell1 cell2 cell3
      by (simp add: first second mut frame1)
  qed
  have I: ?I
  proof (cases "FindProductByName_loop (Inventory.Products i) name order")
    case None
    then have none: "\<forall>j q. map_lookup (Inventory.Products i) j = Some q \<longrightarrow> Name q \<noteq> name"
      using assms(2)
      by (auto simp: FindProductByName_loop_None range_order_def map_keys_def map_lookup_def
          split: option.splits)
    have "FindProductByName i order name h = ((None, Some ErrProductNotFound), i, h)"
      using None by (simp add: FindProductByName_def)
    with none show ?thesis
      by simp
  next
    case (Some p)
    from FindProductByName_loop_first [OF Some] obtain ks1 j ks2 where
      split: "order = ks1 @ j # ks2" and
      stored: "map_lookup (Inventory.Products i) j = Some p" and
      named: "Name p = name" and
      earlier: "\<forall>j'\<in>set ks1. \<forall>q. map_lookup (Inventory.Products i) j' = Some q \<longrightarrow> Name q \<noteq> name"
      by blast
    have first: "FindProductByName i order name h = ((Some (CellRef ?a), None), i, h1 p)"
      using Some by (simp add: FindProductByName_def alloc1)
    have second: "FindProductByName i order name (h2 p xs) =
        ((Some (CellRef (Suc ?a)), None), i, h3 p xs)" for xs
      using Some by (simp add: FindProductByName_def alloc2)
    have ex: "\<exists>j q. map_lookup (Inventory.Products i) j = Some q \<and> Name q = name"
      using stored named by blast
    have body: "\<exists>ks1 j ks2 p'.
        order = ks1 @ j # ks2 \<and>
        map_lookup (Inventory.Products i) j = Some p' \<and> Name p' = name \<and>
        (\<forall>j'\<in>set ks1. \<forall>q. map_lookup (Inventory.Products i) j' = Some q \<longrightarrow> Name q \<noteq> name) \<and>
        cells (h1 p) ?a = Some p' \<and>
        (\<forall>xs. case apply_ops_at (CellRef ?a) xs (Inventory.Products i, h1 p) of
                (f, h'') \<Rightarrow>
                  f = Inventory.Products i \<and>
                  cells h'' ?a = Some (apply_ops p' xs) \<and>
                  (case FindProductByName (i\<lparr>Inventory.Products := f\<rparr>) order name h'' of
                     ((ptr2, err2), i2, h2) \<Rightarrow>
                       i2 = i \<and> err2 = None \<and> ptr2 \<noteq> Some (CellRef ?a) \<and>
                       deref (Inventory.Products i2, h2) ptr2 = Some p' \<and>
                       deref (Inventory.Products i2, h2) (Some (CellRef ?a)) =
                         Some (apply_ops p' xs)))"
    proof (intro exI conjI)
      show "order = ks1 @ j # ks2" by (rule split)
      show "map_lookup (Inventory.Products i) j = Some p" by (rule stored)
      show "Name p = name" by (rule named)
      show "\<forall>j'\<in>set ks1. \<forall>q. map_lookup (Inventory.Products i) j' = Some q \<longrightarrow> Name q \<noteq> name"
        by (rule earlier)
      show "cells (h1 p) ?a = Some p" by (rule cell1)
      show "\<forall>xs. case apply_ops_at (CellRef ?a) xs (Inventory.Products i, h1 p) of
                (f, h'') \<Rightarrow>
                  f = Inventory.Products i \<and>
                  cells h'' ?a = Some (apply_ops p xs) \<and>
                  (case FindProductByName (i\<lparr>Inventory.Products := f\<rparr>) order name h'' of
                     ((ptr2, err2), i2, h2) \<Rightarrow>
                       i2 = i \<and> err2 = None \<and> ptr2 \<noteq> Some (CellRef ?a) \<and>
                       deref (Inventory.Products i2, h2) ptr2 = Some p \<and>
                       deref (Inventory.Products i2, h2) (Some (CellRef ?a)) =
                         Some (apply_ops p xs))"
        using cell2 cell3 by (simp add: mut second)
    qed
    show ?thesis
      using ex fresh body by (simp add: first frame1)
  qed
  from S I show ?thesis
    by (rule conjI)
qed


theorem lookup_returns_copy_witness:
  "heap_ok empty_heap \<and>
   range_order (Inventory.Products test_inventory) [2, 3, 1] \<and>
   MemoryStorage_GetByID \<lparr>MemoryStorage.Products = Some [1 \<mapsto> test_product]\<rparr> 1 empty_heap =
     ((Some (CellRef 0), None), \<lparr>MemoryStorage.Products = Some [1 \<mapsto> test_product]\<rparr>,
      \<lparr>cells = [0 \<mapsto> test_product], next_addr = 1\<rparr>) \<and>
   apply_ops_at (CellRef 0) [OpRestock 5]
       (Some [1 \<mapsto> test_product], \<lparr>cells = [0 \<mapsto> test_product], next_addr = 1\<rparr>) =
     (Some [1 \<mapsto> test_product],
      \<lparr>cells = [0 \<mapsto> test_product\<lparr>Quantity := 5\<rparr>], next_addr = 1\<rparr>) \<and>
   MemoryStorage_GetByID \<lparr>MemoryStorage.Products = Some [1 \<mapsto> test_product]\<rparr> 1
       \<lparr>cells = [0 \<mapsto> test_product\<lparr>Quantity := 5\<rparr>], next_addr = 1\<rparr> =
     ((Some (CellRef 1), None), \<lparr>MemoryStorage.Products = Some [1 \<mapsto> test_product]\<rparr>,
      \<lparr>cells = [0 \<mapsto> test_product\<lparr>Quantity := 5\<rparr>, 1 \<mapsto> test_product], next_addr = 2\<rparr>) \<and>
   MemoryStorage_GetByID \<lparr>MemoryStorage.Products = Some [1 \<mapsto> test_product]\<rparr> 2 empty_heap =
     ((None, Some ErrProductNotFound), \<lparr>MemoryStorage.Products = Some [1 \<mapsto> test_product]\<rparr>,
      empty_heap) \<and>
   FindProductByName test_inventory [2, 3, 1] ''Product 1'' empty_heap =
     ((Some (CellRef 0), None), test_inventory, \<lparr>cells = [0 \<mapsto> p1], next_addr = 1\<rparr>) \<and>
   FindProductByName test_inventory [2, 3, 1] ''Product 9'' empty_heap =
     ((None, Some ErrProductNotFound), test_inventory, empty_heap)"
proof -
  have h: "heap_ok empty_heap"
    by (simp add: heap_ok_def empty_heap_def)
  have r: "range_order (Inventory.Products test_inventory) [2, 3, 1]"
    by (auto simp: range_order_def map_keys_def test_inventory_def)
  from h r
    lookup_returns_copy
      [OF h r, of "\<lparr>MemoryStorage.Products = Some [1 \<mapsto> test_product]\<rparr>" 1 "''Product 1''"]
    lookup_returns_copy
      [OF h r, of "\<lparr>MemoryStorage.Products = Some [1 \<mapsto> test_product]\<rparr>" 2 "''Product 9''"]
  show ?thesis
    by (simp add: MemoryStorage_GetByID_def FindProductByName_def map_lookup_def alloc_def
        empty_heap_def Restock_def test_inventory_def test_product_def p1_def p2_def p3_def)
qed

section \<open>The concurrent fetch\<close>

lemma results_foldl_goroutine:
  "results (foldl (\<lambda>ch j. goroutine api (draws ! j) (ids ! j) ch) ch sched) =
   results ch @
     map (\<lambda>j. fst (FetchProductDetails api (draws ! j) (ids ! j)))
       (filter (\<lambda>j. snd (FetchProductDetails api (draws ! j) (ids ! j)) = None) sched)"
  by (induction sched arbitrary: ch) (simp_all add: goroutine_def case_prod_beta)

lemma zip_as_map_nth:
  "length xs = length ys \<Longrightarrow> zip xs ys = map (\<lambda>j. (xs ! j, ys ! j)) [0..<length ys]"
  by (rule nth_equalityI) simp_all

lemma completion_order_mset:
  assumes "completion_order n sched"
  shows "mset sched = mset [0..<n]"
proof -
  from assms have "distinct sched" and "set sched = {0..<n}"
    by (simp_all add: completion_order_def)
  then have "mset sched = mset_set {0..<n}"
    using mset_set_set [of sched] by simp
  then show ?thesis
    by (simp add: mset_upt)
qed

text \<open>
  C1. For \<open>N\<close> requested IDs, any draws (one set for each position) and any order in
  which the goroutines finish, \<open>FetchProductsConcurrently\<close> returns at most \<open>N\<close> pointers;
  each is non-nil and points to a product whose ID is one of the requested IDs; as a
  multiset the result is exactly the products of the fetches that returned no error, one
  for each such fetch, the failed fetches being dropped; and their number is the number
  of fetches whose failure draw did not trigger. The function has no error result.
\<close>

theorem FetchProductsConcurrently_spec:
  assumes "length draws = length ids" and "completion_order (length ids) sched"
  shows
  "length (FetchProductsConcurrently api draws sched ids) \<le> length ids \<and>
   (\<forall>r \<in> set (FetchProductsConcurrently api draws sched ids).
      \<exists>p. r = Some p \<and> ID p \<in> set ids) \<and>
   mset (FetchProductsConcurrently api draws sched ids) =
     mset (map (\<lambda>(d, i). fst (FetchProductDetails api d i))
            (filter (\<lambda>(d, i). snd (FetchProductDetails api d i) = None) (zip draws ids))) \<and>
   length (FetchProductsConcurrently api draws sched ids) =
     length (filter (\<lambda>d. \<not> failure_draw d < 0.1) draws)"
proof -
  let ?F = "\<lambda>j. FetchProductDetails api (draws ! j) (ids ! j)"
  let ?n = "length ids"
  let ?R = "FetchProductsConcurrently api draws sched ids"
  let ?succ = "map (\<lambda>(d, i). fst (FetchProductDetails api d i))
            (filter (\<lambda>(d, i). snd (FetchProductDetails api d i) = None) (zip draws ids))"
  have R: "?R = map (\<lambda>j. fst (?F j)) (filter (\<lambda>j. snd (?F j) = None) sched)"
    by (simp add: FetchProductsConcurrently_def results_foldl_goroutine)
  have ms: "mset sched = mset [0..<?n]"
    using assms(2) by (rule completion_order_mset)
  have succ: "?succ = map (\<lambda>j. fst (?F j)) (filter (\<lambda>j. snd (?F j) = None) [0..<?n])"
    by (simp add: zip_as_map_nth [OF assms(1)] filter_map comp_def)
  have "mset ?R = image_mset (\<lambda>j. fst (?F j)) (filter_mset (\<lambda>j. snd (?F j) = None) (mset sched))"
    by (simp add: R)
  also have "\<dots> = mset ?succ"
    by (simp add: ms succ)
  finally have three: "mset ?R = mset ?succ" .
  have "length ?succ \<le> length (zip draws ids)"
    by (simp del: length_zip)
  then have "length ?succ \<le> ?n"
    using assms(1) by simp
  moreover have len: "length ?R = length ?succ"
    using three by (metis size_mset)
  ultimately have one: "length ?R \<le> ?n"
    by simp
  have two: "\<forall>r \<in> set ?R. \<exists>p. r = Some p \<and> ID p \<in> set ids"
  proof
    fix r assume "r \<in> set ?R"
    then have "r \<in> set ?succ"
      using three by (metis set_mset_mset)
    then obtain d i where "(d, i) \<in> set (zip draws ids)"
      and "snd (FetchProductDetails api d i) = None"
      and "r = fst (FetchProductDetails api d i)"
      by auto
    then show "\<exists>p. r = Some p \<and> ID p \<in> set ids"
      by (auto simp: FetchProductDetails_def split: if_splits dest: set_zip_rightD)
  qed
  have "filter (\<lambda>(d, i). snd (FetchProductDetails api d i) = None) (zip draws ids) =
        filter (\<lambda>(d, i). \<not> failure_draw d < 0.1) (zip draws ids)"
    by (rule filter_cong) (auto simp: FetchProductDetails_def)
  moreover have "length (filter (\<lambda>(d, i). \<not> failure_draw d < 0.1) (zip draws ids)) =
        length (filter (\<lambda>d. \<not> failure_draw d < 0.1) (map fst (zip draws ids)))"
    by (simp add: filter_map comp_def case_prod_unfold)
  ultimately have "length ?succ = length (filter (\<lambda>d. \<not> failure_draw d < 0.1) draws)"
    using assms(1) by simp
  with len have four: "length ?R = length (filter (\<lambda>d. \<not> failure_draw d < 0.1) draws)"
    by simp
  from one two three four show ?thesis
    by (intro conjI)
qed

theorem FetchProductsConcurrently_spec_witness:
  "length [draws_ok, draws_failed, draws_ok] = length [7, 8, 9 :: go_int] \<and>
   completion_order (length [7, 8, 9 :: go_int]) [2, 0, 1] \<and>
   FetchProductsConcurrently test_api [draws_ok, draws_failed, draws_ok] [2, 0, 1] [7, 8, 9] =
     [Some \<lparr>ID = 9, Name = ''Product 9'', Price = Float64 0x4024000000000000, Quantity = 3,
             Category = ''Category''\<rparr>,
      Some \<lparr>ID = 7, Name = ''Product 7'', Price = Float64 0x4024000000000000, Quantity = 3,
             Category = ''Category''\<rparr>] \<and>
   length (FetchProductsConcurrently test_api [draws_ok, draws_failed, draws_ok] [2, 0, 1]
             [7, 8, 9]) \<le> length [7, 8, 9 :: go_int]"
proof -
  have h1: "length [draws_ok, draws_failed, draws_ok] = length [7, 8, 9 :: go_int]"
    by simp
  have h2: "completion_order (length [7, 8, 9 :: go_int]) [2, 0, 1]"
    by (auto simp: completion_order_def)
  have r: "FetchProductsConcurrently test_api [draws_ok, draws_failed, draws_ok] [2, 0, 1]
      [7, 8, 9] =
     [Some \<lparr>ID = 9, Name = ''Product 9'', Price = Float64 0x4024000000000000, Quantity = 3,
             Category = ''Category''\<rparr>,
      Some \<lparr>ID = 7, Name = ''Product 7'', Price = Float64 0x4024000000000000, Quantity = 3,
             Category = ''Category''\<rparr>]"
    by (simp add: FetchProductsConcurrently_def goroutine_def FetchProductDetails_def
        draws_ok_def draws_failed_def Sprintf_d_def string_of_nat.simps float64_of_int_def
        float64_of_nat_def bit_length.simps Let_def)
  from h1 h2 r FetchProductsConcurrently_spec [OF h1 h2, of test_api]
  show ?thesis
    by simp
qed

end
